theory Spec2Isabelle
  imports Complex_Main
begin

section \<open>Python values\<close>

text \<open>
  The program is dynamically typed Python. The values that reach it come from
  \<^verbatim>\<open>csv.DictReader\<close> (strings, or \<^verbatim>\<open>None\<close> for a short row) and from
  \<^verbatim>\<open>json.load\<close> (any JSON value), so the model carries one type of values.
  A string is the list of its code points, which are below 256. A dictionary is an
  association list in insertion order with distinct keys.

  A float is a binary64 value, identified up to Python's \<^verbatim>\<open>==\<close> (so \<open>-0.0\<close> is \<open>0.0\<close>)
  and with a single not-a-number. A finite float is given by its exact rational value;
  \<open>Infinite True\<close> is the negative infinity.
\<close>

datatype pyfloat = Finite rat | Infinite bool | NaN

datatype pyval =
    PNone
  | PBool bool
  | PInt int
  | PFloat pyfloat
  | PStr string
  | PList "pyval list"
  | PDict "(string \<times> pyval) list"

datatype exn =
    KeyError
  | ValueError
  | TypeError
  | IndexError
  | AttributeError
  | OverflowError
  | FileNotFoundError
  | UnboundLocalError

text \<open>Python's truth value of an object, as \<^verbatim>\<open>if x\<close> and \<^verbatim>\<open>x or y\<close> test it.\<close>

fun truthy :: "pyval \<Rightarrow> bool" where
  "truthy PNone = False"
| "truthy (PBool b) = b"
| "truthy (PInt i) = (i \<noteq> 0)"
| "truthy (PFloat x) = (x \<noteq> Finite 0)"
| "truthy (PStr s) = (s \<noteq> [])"
| "truthy (PList xs) = (xs \<noteq> [])"
| "truthy (PDict kvs) = (kvs \<noteq> [])"

definition py_or :: "pyval \<Rightarrow> pyval \<Rightarrow> pyval" where
  "py_or x y = (if truthy x then x else y)"

text \<open>Sequencing of computations that may raise: the first exception wins.\<close>

definition bind_exn :: "exn + 'a \<Rightarrow> ('a \<Rightarrow> exn + 'b) \<Rightarrow> exn + 'b" where
  "bind_exn m f = (case m of Inl e \<Rightarrow> Inl e | Inr x \<Rightarrow> f x)"

fun map_exn :: "('a \<Rightarrow> exn + 'b) \<Rightarrow> 'a list \<Rightarrow> exn + 'b list" where
  "map_exn f [] = Inr []"
| "map_exn f (x # xs) = bind_exn (f x) (\<lambda>y. bind_exn (map_exn f xs) (\<lambda>ys. Inr (y # ys)))"

subsection \<open>Rounding a rational to binary64\<close>

definition pow2 :: "int \<Rightarrow> rat" where
  "pow2 e = (if 0 \<le> e then 2 ^ nat e else 1 / 2 ^ nat (- e))"

definition pow10 :: "int \<Rightarrow> rat" where
  "pow10 e = (if 0 \<le> e then 10 ^ nat e else 1 / 10 ^ nat (- e))"

text \<open>The number of binary digits of a positive integer.\<close>

function bitlen :: "int \<Rightarrow> int" where
  "bitlen n = (if n \<le> 0 then 0 else 1 + bitlen (n div 2))"
  by pat_completeness auto
termination
  by (relation "measure nat") auto

declare bitlen.simps [simp del]

text \<open>\<open>ilog2 x\<close> is \<open>\<lfloor>log\<^sub>2 x\<rfloor>\<close> for a positive rational \<open>x\<close>.\<close>

definition ilog2 :: "rat \<Rightarrow> int" where
  "ilog2 x =
     (let (p, q) = quotient_of x;
          k = bitlen p - bitlen q
      in if pow2 k \<le> x then k else k - 1)"

definition round_half_even :: "rat \<Rightarrow> int" where
  "round_half_even x =
     (let n = \<lfloor>x\<rfloor>; d = x - of_int n
      in if d < 1 / 2 then n
         else if 1 / 2 < d then n + 1
         else if even n then n else n + 1)"

text \<open>
  Round to nearest, ties to even, with 53 bits of precision, gradual underflow
  below \<open>2\<^sup>-\<^sup>1\<^sup>0\<^sup>2\<^sup>2\<close> and overflow to infinity.
\<close>

definition binary64 :: "rat \<Rightarrow> pyfloat" where
  "binary64 x =
     (if x = 0 then Finite 0
      else let a = \<bar>x\<bar>;
               e = max (ilog2 a - 52) (- 1074);
               m = round_half_even (a / pow2 e);
               v = of_int m * pow2 e
           in if 2 ^ 1024 \<le> v then Infinite (x < 0) else Finite (sgn x * v))"

subsection \<open>The builtin \<^verbatim>\<open>float\<close>\<close>

text \<open>
  The blanks that \<^verbatim>\<open>float\<close> drops around a number: the six ASCII ones, and the two
  Unicode blanks below 256, the next line \<open>U+0085\<close> and the no-break space \<open>U+00A0\<close>.
  The separators \<open>U+001C\<close> to \<open>U+001F\<close> are not among them.
\<close>

definition is_space :: "char \<Rightarrow> bool" where
  "is_space c = (c \<in> set [CHR 0x09, CHR 0x0A, CHR 0x0B, CHR 0x0C, CHR 0x0D, CHR 0x20,
                           CHR 0x85, CHR 0xA0])"

definition is_digit :: "char \<Rightarrow> bool" where
  "is_digit c = (let n = (of_char c :: nat) in 48 \<le> n \<and> n \<le> 57)"

definition digit_val :: "char \<Rightarrow> int" where
  "digit_val c = of_char c - 48"

definition to_lower :: "char \<Rightarrow> char" where
  "to_lower c = (let n = (of_char c :: nat) in if 65 \<le> n \<and> n \<le> 90 then char_of (n + 32) else c)"

definition strip :: "string \<Rightarrow> string" where
  "strip s = rev (dropWhile is_space (rev (dropWhile is_space s)))"

text \<open>
  An underscore is allowed only between two digits; the function returns the text
  without its underscores. The first argument is the previous character.
\<close>

fun drop_underscores :: "char \<Rightarrow> string \<Rightarrow> string option" where
  "drop_underscores prev [] = (if prev = CHR ''_'' then None else Some [])"
| "drop_underscores prev (c # cs) =
     (if c = CHR ''_'' then (if is_digit prev then drop_underscores c cs else None)
      else if prev = CHR ''_'' \<and> \<not> is_digit c then None
      else map_option ((#) c) (drop_underscores c cs))"

definition digits_val :: "string \<Rightarrow> int" where
  "digits_val ds = foldl (\<lambda>a c. 10 * a + digit_val c) 0 ds"

definition split_sign :: "string \<Rightarrow> bool \<times> string" where
  "split_sign s =
     (case s of
        [] \<Rightarrow> (False, [])
      | c # cs \<Rightarrow> if c = CHR ''-'' then (True, cs) else if c = CHR ''+'' then (False, cs) else (False, s))"

text \<open>The exponent part: empty, or \<open>e\<close>/\<open>E\<close>, an optional sign and at least one digit.\<close>

definition parse_exponent :: "string \<Rightarrow> int option" where
  "parse_exponent s =
     (case s of
        [] \<Rightarrow> Some 0
      | c # cs \<Rightarrow>
          if c = CHR ''e'' \<or> c = CHR ''E'' then
            (let (neg, ds) = split_sign cs
             in if ds \<noteq> [] \<and> list_all is_digit ds
                then Some (if neg then - digits_val ds else digits_val ds)
                else None)
          else None)"

text \<open>
  A decimal number without sign: digits, an optional point and digits, with at least
  one digit in all, and an optional exponent. The result is the exact value.
\<close>

definition parse_decimal :: "string \<Rightarrow> rat option" where
  "parse_decimal s =
     (let ip = takeWhile is_digit s; r1 = dropWhile is_digit s;
          (fp, r2) = (case r1 of
                        [] \<Rightarrow> ([], [])
                      | c # cs \<Rightarrow> if c = CHR ''.'' then (takeWhile is_digit cs, dropWhile is_digit cs)
                                  else ([], r1))
      in if ip = [] \<and> fp = [] then None
         else case parse_exponent r2 of
                None \<Rightarrow> None
              | Some ex \<Rightarrow> Some (of_int (digits_val (ip @ fp)) * pow10 (ex - int (length fp))))"

text \<open>
  \<^verbatim>\<open>float(s)\<close> for a string: surrounding whitespace is dropped, underscores are checked
  and removed, then a sign and one of \<open>inf\<close>, \<open>infinity\<close>, \<open>nan\<close> (in any case) or a decimal
  number must make up the whole text. \<open>None\<close> stands for \<^verbatim>\<open>ValueError\<close>.
\<close>

definition float_of_string :: "string \<Rightarrow> pyfloat option" where
  "float_of_string s =
     (case drop_underscores (CHR 0x00) (strip s) of
        None \<Rightarrow> None
      | Some t \<Rightarrow>
          let (neg, body) = split_sign t; low = map to_lower body
          in if low = ''inf'' \<or> low = ''infinity'' then Some (Infinite neg)
             else if low = ''nan'' then Some NaN
             else (case parse_decimal body of
                     None \<Rightarrow> None
                   | Some r \<Rightarrow> Some (binary64 (if neg then - r else r))))"

text \<open>
  \<^verbatim>\<open>float(x)\<close> for any value. An integer too large for a float raises
  \<^verbatim>\<open>OverflowError\<close>; \<^verbatim>\<open>None\<close>, lists and dictionaries raise \<^verbatim>\<open>TypeError\<close>.
\<close>

fun py_float :: "pyval \<Rightarrow> exn + pyfloat" where
  "py_float (PStr s) = (case float_of_string s of None \<Rightarrow> Inl ValueError | Some x \<Rightarrow> Inr x)"
| "py_float (PFloat x) = Inr x"
| "py_float (PInt i) = (case binary64 (of_int i) of Infinite b \<Rightarrow> Inl OverflowError | x \<Rightarrow> Inr x)"
| "py_float (PBool b) = Inr (Finite (if b then 1 else 0))"
| "py_float PNone = Inl TypeError"
| "py_float (PList xs) = Inl TypeError"
| "py_float (PDict kvs) = Inl TypeError"

section \<open>models.py\<close>

text \<open>
  The keyword arguments \<^verbatim>\<open>**info\<close> are a dictionary from field names to values;
  \<^verbatim>\<open>info[k]\<close> raises \<^verbatim>\<open>KeyError\<close> for a name that is not there.
\<close>

type_synonym info = "string \<rightharpoonup> pyval"

definition getitem :: "info \<Rightarrow> string \<Rightarrow> exn + pyval" where
  "getitem info k = (case info k of None \<Rightarrow> Inl KeyError | Some v \<Rightarrow> Inr v)"

text \<open>
  A field of a row is absent when the row carries \<^verbatim>\<open>None\<close> for it (a short line of
  the file) or the empty string (an empty cell).
\<close>

abbreviation absent :: "pyval option \<Rightarrow> bool" where
  "absent v \<equiv> v = Some PNone \<or> v = Some (PStr [])"

text \<open>
  An object and its approaches refer to each other. Neither class reads through the
  other's reference beyond one step, so a reference is modelled by the value referred to.
  The type \<open>'dt\<close> is that of \<^verbatim>\<open>datetime\<close> objects.
\<close>

datatype 'dt NearEarthObject =
  NearEarthObject
    (designation: pyval)
    (name: pyval)
    (diameter: pyfloat)
    (hazardous: bool)
    (approaches: "'dt CloseApproach list")
and 'dt CloseApproach =
  CloseApproach
    (approach_designation: pyval)
    (time: "'dt option")
    (distance: pyfloat)
    (velocity: pyfloat)
    (neo: "'dt NearEarthObject option")

text \<open>
  \<^verbatim>\<open>NearEarthObject.__init__\<close>. The fields are read in the order of the source:
  \<open>pdes\<close>, \<open>name\<close>, \<open>diameter\<close> (for the test, and converted when it is true), \<open>pha\<close>.
\<close>

definition NearEarthObject_init :: "info \<Rightarrow> exn + 'dt NearEarthObject" where
  "NearEarthObject_init info =
     bind_exn (getitem info ''pdes'') (\<lambda>pdes.
     bind_exn (getitem info ''name'') (\<lambda>nm.
     bind_exn (getitem info ''diameter'') (\<lambda>dia.
     bind_exn (if truthy dia then py_float dia else py_float (PStr ''nan'')) (\<lambda>d.
     bind_exn (getitem info ''pha'') (\<lambda>pha.
       Inr (NearEarthObject (py_or pdes (PStr [])) (py_or nm PNone) d (pha = PStr ''Y'') []))))))"

text \<open>
  \<^verbatim>\<open>str(x)\<close> as an f-string field uses it: a string is itself; for any other value the
  text is given by the parameter \<open>str_of\<close>, which stands for the builtin.
\<close>

definition format :: "(pyval \<Rightarrow> string) \<Rightarrow> pyval \<Rightarrow> string" where
  "format str_of v = (case v of PStr s \<Rightarrow> s | _ \<Rightarrow> str_of v)"

definition fullname :: "(pyval \<Rightarrow> string) \<Rightarrow> 'dt NearEarthObject \<Rightarrow> string" where
  "fullname str_of self =
     (if truthy (name self) then
        format str_of (designation self) @ '' ('' @ format str_of (name self) @ '')''
      else if truthy (designation self) then format str_of (designation self)
      else ''(No name specified)'')"

text \<open>\<^verbatim>\<open>NearEarthObject.serialize\<close>: a dictionary of four entries, in this order.\<close>

definition NearEarthObject_serialize :: "'dt NearEarthObject \<Rightarrow> (string \<times> pyval) list" where
  "NearEarthObject_serialize self =
     [(''designation'', designation self),
      (''name'', name self),
      (''diameter_km'', PFloat (diameter self)),
      (''potentially_hazardous'', PBool (hazardous self))]"

text \<open>
  \<^verbatim>\<open>CloseApproach.__init__\<close>. The module \<^verbatim>\<open>helpers\<close> is not part of the sources at
  hand: its function \<^verbatim>\<open>cd_to_datetime\<close> is a parameter, which may raise.
\<close>

definition CloseApproach_init ::
  "(pyval \<Rightarrow> exn + 'dt) \<Rightarrow> info \<Rightarrow> exn + 'dt CloseApproach" where
  "CloseApproach_init cd_to_datetime info =
     bind_exn (getitem info ''designation'') (\<lambda>des.
     bind_exn (getitem info ''time'') (\<lambda>t.
     bind_exn (if truthy t then bind_exn (cd_to_datetime t) (\<lambda>d. Inr (Some d)) else Inr None) (\<lambda>tm.
     bind_exn (getitem info ''distance'') (\<lambda>dist.
     bind_exn (if truthy dist then py_float dist else py_float (PFloat (Finite 0))) (\<lambda>di.
     bind_exn (getitem info ''velocity'') (\<lambda>vel.
     bind_exn (if truthy vel then py_float vel else py_float (PFloat (Finite 0))) (\<lambda>ve.
       Inr (CloseApproach (py_or des (PStr [])) tm di ve None))))))))"

text \<open>
  \<^verbatim>\<open>CloseApproach.time_str\<close> calls \<^verbatim>\<open>datetime_to_str\<close> of the same absent module,
  again a parameter, on the time, which may be \<^verbatim>\<open>None\<close>.
\<close>

definition time_str :: "('dt option \<Rightarrow> exn + string) \<Rightarrow> 'dt CloseApproach \<Rightarrow> exn + string" where
  "time_str datetime_to_str self = datetime_to_str (time self)"

text \<open>
  \<^verbatim>\<open>CloseApproach.__str__\<close>. The fields of the f-string are evaluated from left to
  right; \<^verbatim>\<open>self.neo.fullname\<close> raises \<^verbatim>\<open>AttributeError\<close> when \<^verbatim>\<open>self.neo\<close> is
  \<^verbatim>\<open>None\<close>. The parameter \<open>float_fmt\<close> is the float format \<^verbatim>\<open>.2f\<close>.
\<close>

definition CloseApproach_str ::
  "('dt option \<Rightarrow> exn + string) \<Rightarrow> (pyval \<Rightarrow> string) \<Rightarrow> (pyfloat \<Rightarrow> string) \<Rightarrow>
   'dt CloseApproach \<Rightarrow> exn + string" where
  "CloseApproach_str datetime_to_str str_of float_fmt self =
     bind_exn (time_str datetime_to_str self) (\<lambda>ts.
     bind_exn (case neo self of None \<Rightarrow> Inl AttributeError | Some n \<Rightarrow> Inr (fullname str_of n)) (\<lambda>fn.
       Inr (''At '' @ ts @ '', '' @ [CHR 0x27] @ fn @ [CHR 0x27]
            @ '' approaches Earth at a distance of '' @ float_fmt (distance self)
            @ '' au and a velocity of '' @ float_fmt (velocity self) @ '' km/s.'')))"

text \<open>\<^verbatim>\<open>CloseApproach.serialize\<close>.\<close>

definition CloseApproach_serialize ::
  "('dt option \<Rightarrow> exn + string) \<Rightarrow> 'dt CloseApproach \<Rightarrow> exn + (string \<times> pyval) list" where
  "CloseApproach_serialize datetime_to_str self =
     bind_exn (time_str datetime_to_str self) (\<lambda>ts.
       Inr [(''datetime_utc'', PStr ts),
            (''distance_au'', PFloat (distance self)),
            (''velocity_km_s'', PFloat (velocity self))])"

section \<open>extract.py\<close>

text \<open>Subscription \<^verbatim>\<open>x[k]\<close> with a string \<open>k\<close>: only a dictionary accepts it.\<close>

fun py_getkey :: "pyval \<Rightarrow> string \<Rightarrow> exn + pyval" where
  "py_getkey (PDict kvs) k = (case map_of kvs k of None \<Rightarrow> Inl KeyError | Some v \<Rightarrow> Inr v)"
| "py_getkey x k = Inl TypeError"

text \<open>Subscription \<^verbatim>\<open>x[i]\<close> with an index \<open>i\<close> that is not negative.\<close>

fun py_getitem :: "pyval \<Rightarrow> nat \<Rightarrow> exn + pyval" where
  "py_getitem (PList xs) i = (if i < length xs then Inr (xs ! i) else Inl IndexError)"
| "py_getitem (PStr s) i = (if i < length s then Inr (PStr [s ! i]) else Inl IndexError)"
| "py_getitem (PDict kvs) i = Inl KeyError"
| "py_getitem x i = Inl TypeError"

fun index_of :: "pyval list \<Rightarrow> pyval \<Rightarrow> nat option" where
  "index_of [] x = None"
| "index_of (y # ys) x = (if y = x then Some 0 else map_option Suc (index_of ys x))"

fun find_sub :: "string \<Rightarrow> string \<Rightarrow> nat option" where
  "find_sub sub [] = (if sub = [] then Some 0 else None)"
| "find_sub sub (c # cs) =
     (if take (length sub) (c # cs) = sub then Some 0 else map_option Suc (find_sub sub cs))"


text \<open>
  The method call \<^verbatim>\<open>x.index(s)\<close> with a string \<open>s\<close>: the first position in a list, the
  first occurrence in a string, \<^verbatim>\<open>ValueError\<close> when there is none; other values
  have no such method.
\<close>

fun py_index :: "pyval \<Rightarrow> string \<Rightarrow> exn + nat" where
  "py_index (PList xs) s = (case index_of xs (PStr s) of None \<Rightarrow> Inl ValueError | Some i \<Rightarrow> Inr i)"
| "py_index (PStr t) s = (case find_sub s t of None \<Rightarrow> Inl ValueError | Some i \<Rightarrow> Inr i)"
| "py_index x s = Inl AttributeError"

text \<open>The items that iterating over a value yields.\<close>

fun py_iter :: "pyval \<Rightarrow> exn + pyval list" where
  "py_iter (PList xs) = Inr xs"
| "py_iter (PStr s) = Inr (map (\<lambda>c. PStr [c]) s)"
| "py_iter (PDict kvs) = Inr (map (\<lambda>kv. PStr (fst kv)) kvs)"
| "py_iter x = Inl TypeError"

text \<open>
  Both loaders have the shape
  \<^verbatim>\<open>try: with open(path) as f: ... except FileNotFoundError: print(...) finally: f.close()\<close>.
  The handler turns \<^verbatim>\<open>FileNotFoundError\<close> into a printed line and the result
  \<^verbatim>\<open>None\<close> of a function that falls off its end. The \<^verbatim>\<open>finally\<close> clause then reads
  the local variable \<open>f\<close>, which is bound only if \<^verbatim>\<open>open\<close> returned.
\<close>

definition except_FileNotFoundError :: "exn + 'a option \<Rightarrow> string list \<times> (exn + 'a option)" where
  "except_FileNotFoundError r =
     (case r of
        Inl e \<Rightarrow> if e = FileNotFoundError then ([''File not found''], Inr None) else ([], Inl e)
      | Inr v \<Rightarrow> ([], Inr v))"

definition finally_close :: "string option \<Rightarrow> exn + 'a \<Rightarrow> exn + 'a" where
  "finally_close f r = (case f of None \<Rightarrow> Inl UnboundLocalError | Some h \<Rightarrow> r)"

text \<open>
  \<^verbatim>\<open>load_neos\<close>. The files are given by the rows that \<^verbatim>\<open>csv.DictReader\<close> yields for
  each path that exists. The result is what was printed and what the call returns or
  raises.
\<close>

definition load_neos ::
  "(string \<rightharpoonup> info list) \<Rightarrow> string \<Rightarrow> string list \<times> (exn + 'dt NearEarthObject list option)" where
  "load_neos files neo_csv_path =
     (let (f, body) =
            (case files neo_csv_path of
               None \<Rightarrow> (None, Inl FileNotFoundError)
             | Some reader \<Rightarrow>
                 (Some neo_csv_path,
                  bind_exn (map_exn NearEarthObject_init reader) (\<lambda>output. Inr (Some output))));
          (printed, r) = except_FileNotFoundError body
      in (printed, finally_close f r))"

text \<open>The lambda of \<^verbatim>\<open>load_approaches\<close>: the four cells are read, then the constructor runs.\<close>

definition approach_of_item ::
  "(pyval \<Rightarrow> exn + 'dt) \<Rightarrow> nat \<Rightarrow> nat \<Rightarrow> nat \<Rightarrow> nat \<Rightarrow> pyval \<Rightarrow> exn + 'dt CloseApproach" where
  "approach_of_item cd_to_datetime destinationIndex timeIndex distanceIndex velocityIndex item =
     bind_exn (py_getitem item destinationIndex) (\<lambda>des.
     bind_exn (py_getitem item timeIndex) (\<lambda>t.
     bind_exn (py_getitem item distanceIndex) (\<lambda>dist.
     bind_exn (py_getitem item velocityIndex) (\<lambda>vel.
       CloseApproach_init cd_to_datetime
         [''designation'' \<mapsto> des, ''time'' \<mapsto> t, ''distance'' \<mapsto> dist, ''velocity'' \<mapsto> vel]))))"

text \<open>
  \<^verbatim>\<open>load_approaches\<close>. The files are given by what \<^verbatim>\<open>json.load\<close> returns or raises
  for each path that exists.
\<close>

definition load_approaches ::
  "(pyval \<Rightarrow> exn + 'dt) \<Rightarrow> (string \<rightharpoonup> exn + pyval) \<Rightarrow> string \<Rightarrow>
   string list \<times> (exn + 'dt CloseApproach list option)" where
  "load_approaches cd_to_datetime files cad_json_path =
     (let (f, body) =
            (case files cad_json_path of
               None \<Rightarrow> (None, Inl FileNotFoundError)
             | Some loaded \<Rightarrow>
                 (Some cad_json_path,
                  bind_exn loaded (\<lambda>jsonData.
                  bind_exn (bind_exn (py_getkey jsonData ''fields'') (\<lambda>fs. py_index fs ''des'')) (\<lambda>destinationIndex.
                  bind_exn (bind_exn (py_getkey jsonData ''fields'') (\<lambda>fs. py_index fs ''cd'')) (\<lambda>timeIndex.
                  bind_exn (bind_exn (py_getkey jsonData ''fields'') (\<lambda>fs. py_index fs ''dist'')) (\<lambda>distanceIndex.
                  bind_exn (bind_exn (py_getkey jsonData ''fields'') (\<lambda>fs. py_index fs ''v_rel'')) (\<lambda>velocityIndex.
                  bind_exn (bind_exn (py_getkey jsonData ''data'') py_iter) (\<lambda>items.
                  bind_exn (map_exn (approach_of_item cd_to_datetime destinationIndex timeIndex
                                       distanceIndex velocityIndex) items) (\<lambda>output.
                    Inr (Some output))))))))));
          (printed, r) = except_FileNotFoundError body
      in (printed, finally_close f r))"

section \<open>write.py\<close>

text \<open>
  A written file is modelled by the value handed to the writer of the standard
  library: the list of rows for \<^verbatim>\<open>csv\<close>, the document for \<^verbatim>\<open>json.dump\<close>. Opening
  a file for writing is taken to succeed.
\<close>

definition fieldnames :: "string list" where
  "fieldnames =
     [''datetime_utc'', ''distance_au'', ''velocity_km_s'', ''designation'', ''name'',
      ''diameter_km'', ''potentially_hazardous'']"

text \<open>
  The dictionary display of \<^verbatim>\<open>write_to_csv\<close>, built from top to bottom: the first
  read of \<^verbatim>\<open>row.neo.designation\<close> raises when \<^verbatim>\<open>row.neo\<close> is \<^verbatim>\<open>None\<close>.
\<close>

definition csv_rowdict ::
  "('dt option \<Rightarrow> exn + string) \<Rightarrow> 'dt CloseApproach \<Rightarrow> exn + (string \<times> pyval) list" where
  "csv_rowdict datetime_to_str row =
     bind_exn (time_str datetime_to_str row) (\<lambda>ts.
     bind_exn (case neo row of None \<Rightarrow> Inl AttributeError | Some n \<Rightarrow> Inr n) (\<lambda>n.
       Inr [(''datetime_utc'', PStr ts),
            (''distance_au'', PFloat (distance row)),
            (''velocity_km_s'', PFloat (velocity row)),
            (''designation'', designation n),
            (''name'', name n),
            (''diameter_km'', PFloat (diameter n)),
            (''potentially_hazardous'', PBool (hazardous n))]))"

text \<open>\<^verbatim>\<open>DictWriter.writerow\<close> lays a dictionary out in the order of the field names.\<close>

definition dict_to_list :: "(string \<times> pyval) list \<Rightarrow> pyval list" where
  "dict_to_list rowdict =
     map (\<lambda>k. case map_of rowdict k of None \<Rightarrow> PStr [] | Some v \<Rightarrow> v) fieldnames"

text \<open>
  The loop of \<^verbatim>\<open>write_to_csv\<close> over the lines written so far. An exception leaves
  the loop; the lines written before it stay in the file.
\<close>

fun write_rows ::
  "('dt option \<Rightarrow> exn + string) \<Rightarrow> pyval list list \<Rightarrow> 'dt CloseApproach list \<Rightarrow>
   pyval list list \<times> (exn + unit)" where
  "write_rows datetime_to_str lines [] = (lines, Inr ())"
| "write_rows datetime_to_str lines (row # results) =
     (case csv_rowdict datetime_to_str row of
        Inl e \<Rightarrow> (lines, Inl e)
      | Inr rowdict \<Rightarrow> write_rows datetime_to_str (lines @ [dict_to_list rowdict]) results)"

definition write_to_csv ::
  "('dt option \<Rightarrow> exn + string) \<Rightarrow> (string \<rightharpoonup> pyval) \<Rightarrow> 'dt CloseApproach list \<Rightarrow> string \<Rightarrow>
   (string \<rightharpoonup> pyval) \<times> (exn + unit)" where
  "write_to_csv datetime_to_str files results filename =
     (let (lines, r) = write_rows datetime_to_str [map PStr fieldnames] results
      in (files(filename \<mapsto> PList (map PList lines)), r))"

text \<open>Storing a key: an existing key keeps its place, a new one goes to the end.\<close>

fun dict_set :: "(string \<times> pyval) list \<Rightarrow> string \<Rightarrow> pyval \<Rightarrow> (string \<times> pyval) list" where
  "dict_set [] k v = [(k, v)]"
| "dict_set (kv # d) k v = (if fst kv = k then (k, v) # d else kv # dict_set d k v)"

text \<open>The display \<^verbatim>\<open>{**a, **b}\<close>.\<close>

definition dict_merge :: "(string \<times> pyval) list \<Rightarrow> (string \<times> pyval) list \<Rightarrow> (string \<times> pyval) list" where
  "dict_merge a b = foldl (\<lambda>d kv. dict_set d (fst kv) (snd kv)) a b"

text \<open>The loop of \<^verbatim>\<open>write_to_json\<close> over the output list built so far.\<close>

fun json_entries ::
  "('dt option \<Rightarrow> exn + string) \<Rightarrow> pyval list \<Rightarrow> 'dt CloseApproach list \<Rightarrow> exn + pyval list" where
  "json_entries datetime_to_str output [] = Inr output"
| "json_entries datetime_to_str output (result # results) =
     bind_exn (CloseApproach_serialize datetime_to_str result) (\<lambda>serialized_approach_dict.
     bind_exn (case neo result of
                 None \<Rightarrow> Inl AttributeError
               | Some n \<Rightarrow> Inr [(''neo'', PDict (NearEarthObject_serialize n))]) (\<lambda>serialized_neo_dict.
       json_entries datetime_to_str
         (output @ [PDict (dict_merge serialized_approach_dict serialized_neo_dict)]) results))"

text \<open>
  \<^verbatim>\<open>write_to_json\<close>: the file is opened only after the loop, so an exception in the
  loop leaves the files as they were.
\<close>

definition write_to_json ::
  "('dt option \<Rightarrow> exn + string) \<Rightarrow> (string \<rightharpoonup> pyval) \<Rightarrow> 'dt CloseApproach list \<Rightarrow> string \<Rightarrow>
   (string \<rightharpoonup> pyval) \<times> (exn + unit)" where
  "write_to_json datetime_to_str files results filename =
     (case json_entries datetime_to_str [] results of
        Inl e \<Rightarrow> (files, Inl e)
      | Inr output \<Rightarrow> (files(filename \<mapsto> PList output), Inr ()))"

section \<open>Reading a serialized object back\<close>

text \<open>
  The program serializes an object under the keys \<open>designation\<close>, \<open>name\<close>,
  \<open>diameter_km\<close> and \<open>potentially_hazardous\<close>, and constructs one from the fields
  \<open>pdes\<close>, \<open>name\<close>, \<open>diameter\<close> and \<open>pha\<close>. The function below hands each serialized
  value to the constructor under the constructor's own name for it. It is not part of
  the program: it is the round trip that the specification states.
\<close>

definition fields_of_serialized :: "(string \<times> pyval) list \<Rightarrow> info" where
  "fields_of_serialized d =
     (\<lambda>k. if k = ''pdes'' then map_of d ''designation''
          else if k = ''name'' then map_of d ''name''
          else if k = ''diameter'' then map_of d ''diameter_km''
          else if k = ''pha'' then map_of d ''potentially_hazardous''
          else None)"

section \<open>Basic facts\<close>

lemma bind_exn_Inl [simp]: "bind_exn (Inl e) f = Inl e"
  by (simp add: bind_exn_def)

lemma bind_exn_Inr [simp]: "bind_exn (Inr x) f = f x"
  by (simp add: bind_exn_def)

lemma bind_exn_eq_Inr: "bind_exn m f = Inr y \<longleftrightarrow> (\<exists>x. m = Inr x \<and> f x = Inr y)"
  by (cases m) simp_all

lemma getitem_Some [simp]: "info k = Some v \<Longrightarrow> getitem info k = Inr v"
  by (simp add: getitem_def)

lemma getitem_None [simp]: "info k = None \<Longrightarrow> getitem info k = Inl KeyError"
  by (simp add: getitem_def)

lemma float_of_string_nan [simp]: "float_of_string ''nan'' = Some NaN"
  by code_simp

lemma except_FileNotFoundError_simps [simp]:
  "except_FileNotFoundError (Inl FileNotFoundError) = ([''File not found''], Inr None)"
  "e \<noteq> FileNotFoundError \<Longrightarrow> except_FileNotFoundError (Inl e) = ([], Inl e)"
  "except_FileNotFoundError (Inr v) = ([], Inr v)"
  by (simp_all add: except_FileNotFoundError_def)

lemma finally_close_simps [simp]:
  "finally_close None r = Inl UnboundLocalError"
  "finally_close (Some h) r = r"
  by (simp_all add: finally_close_def)

text \<open>What a successful construction of an object says about the row and the object.\<close>

lemma NearEarthObject_init_eq_Inr:
  "NearEarthObject_init info = Inr obj \<longleftrightarrow>
     (\<exists>pdes nm dia d pha.
        info ''pdes'' = Some pdes \<and> info ''name'' = Some nm \<and> info ''diameter'' = Some dia \<and>
        info ''pha'' = Some pha \<and>
        (if truthy dia then py_float dia else Inr NaN) = Inr d \<and>
        obj = NearEarthObject (py_or pdes (PStr [])) (py_or nm PNone) d (pha = PStr ''Y'') [])"
proof (cases "info ''pdes''")
  case None
  then show ?thesis by (simp add: NearEarthObject_init_def)
next
  case pdes: (Some pdes)
  show ?thesis
  proof (cases "info ''name''")
    case None
    with pdes show ?thesis by (simp add: NearEarthObject_init_def)
  next
    case nm: (Some nm)
    show ?thesis
    proof (cases "info ''diameter''")
      case None
      with pdes nm show ?thesis by (simp add: NearEarthObject_init_def)
    next
      case dia: (Some dia)
      show ?thesis
      proof (cases "info ''pha''")
        case None
        with pdes nm dia show ?thesis
          by (cases "py_float dia") (simp_all add: NearEarthObject_init_def)
      next
        case (Some pha)
        with pdes nm dia show ?thesis
          by (cases "py_float dia") (auto simp: NearEarthObject_init_def)
      qed
    qed
  qed
qed

lemmas float_parse_defs = float_of_string_def strip_def is_space_def split_sign_def to_lower_def
  parse_decimal_def is_digit_def parse_exponent_def digits_val_def digit_val_def pow10_def

text \<open>The distance \<open>0.0921\<close> as a binary64 value: \<open>6636504410893163 / 2\<^sup>5\<^sup>6\<close>.\<close>

lemma binary64_0_0921: "binary64 (921 / 10000) = Finite (6636504410893163 / 72057594037927936)"
  by code_simp

text \<open>A number between a no-break space and a next-line character.\<close>

lemma float_of_string_nbsp:
  "float_of_string [CHR 0xA0, CHR ''1'', CHR ''.'', CHR ''5'', CHR 0x85] = Some (binary64 (15 / 10))"
  by (simp add: float_parse_defs)

lemma float_of_string_16_84: "float_of_string ''16.84'' = Some (binary64 (1684 / 100))"
  by (simp add: float_parse_defs)

lemma float_of_string_abc: "float_of_string ''abc'' = None"
  by (simp add: float_parse_defs)

lemma float_of_string_0_0921: "float_of_string ''0.0921'' = Some (binary64 (921 / 10000))"
  by (simp add: float_parse_defs)

lemma float_of_string_5_58: "float_of_string ''5.58'' = Some (binary64 (558 / 100))"
  by (simp add: float_parse_defs)

lemma float_of_string_n_a: "float_of_string ''n/a'' = None"
  by (simp add: float_parse_defs)

text \<open>The same for an approach.\<close>

lemma CloseApproach_init_eq_Inr:
  "CloseApproach_init cd info = Inr a \<longleftrightarrow>
     (\<exists>des t dist vel tm di ve.
        info ''designation'' = Some des \<and> info ''time'' = Some t \<and>
        info ''distance'' = Some dist \<and> info ''velocity'' = Some vel \<and>
        (if truthy t then bind_exn (cd t) (\<lambda>d. Inr (Some d)) else Inr None) = Inr tm \<and>
        (if truthy dist then py_float dist else Inr (Finite 0)) = Inr di \<and>
        (if truthy vel then py_float vel else Inr (Finite 0)) = Inr ve \<and>
        a = CloseApproach (py_or des (PStr [])) tm di ve None)"
proof -
  have get: "getitem info k = Inr v \<longleftrightarrow> info k = Some v" for k v
    by (simp add: getitem_def split: option.splits)
  show ?thesis
    unfolding CloseApproach_init_def bind_exn_eq_Inr get
    by (simp only: py_float.simps) blast
qed

lemma map_exn_member:
  "map_exn f xs = Inr ys \<Longrightarrow> y \<in> set ys \<Longrightarrow> \<exists>x \<in> set xs. f x = Inr y"
proof (induction xs arbitrary: ys)
  case Nil
  then show ?case by simp
next
  case (Cons x xs)
  from Cons.prems(1) obtain z zs where z: "f x = Inr z" and zs: "map_exn f xs = Inr zs"
    and ys: "ys = z # zs"
    by (auto simp: bind_exn_eq_Inr)
  with Cons.prems(2) Cons.IH [OF zs] show ?case by auto
qed

lemma load_neos_eq_Inr:
  assumes "load_neos files path = (out, Inr (Some objs))"
  shows "\<exists>rows. files path = Some rows \<and> map_exn NearEarthObject_init rows = Inr objs"
proof (cases "files path")
  case None
  with assms show ?thesis by (simp add: load_neos_def)
next
  case (Some rows)
  with assms show ?thesis
    by (cases "map_exn NearEarthObject_init rows :: exn + 'a NearEarthObject list")
       (auto simp: load_neos_def except_FileNotFoundError_def split: if_splits)
qed

lemma truthy_py_or_None: "truthy (py_or v PNone) \<longleftrightarrow> py_or v PNone \<noteq> PNone"
  by (cases "truthy v") (auto simp: py_or_def)

lemma truthy_py_or_empty: "truthy (py_or v (PStr [])) \<longleftrightarrow> py_or v (PStr []) \<noteq> PStr []"
  by (cases "truthy v") (auto simp: py_or_def)

text \<open>The row of the object 433 Eros, with either hazard flag.\<close>

lemma eros_row:
  "NearEarthObject_init [''pdes'' \<mapsto> PStr ''433'', ''name'' \<mapsto> PStr ''Eros'',
       ''diameter'' \<mapsto> PStr ''16.84'', ''pha'' \<mapsto> PStr pha]
     = Inr (NearEarthObject (PStr ''433'') (PStr ''Eros'') (binary64 (1684 / 100)) (pha = ''Y'') [])"
  by (simp add: NearEarthObject_init_def float_of_string_16_84 py_or_def)

lemma load_eros:
  "load_neos [''neos.csv'' \<mapsto> [[''pdes'' \<mapsto> PStr ''433'', ''name'' \<mapsto> PStr ''Eros'',
       ''diameter'' \<mapsto> PStr ''16.84'', ''pha'' \<mapsto> PStr ''N'']]] ''neos.csv''
     = ([], Inr (Some [NearEarthObject (PStr ''433'') (PStr ''Eros'') (binary64 (1684 / 100)) False []]))"
  by (simp add: load_neos_def eros_row)

section \<open>Loading a file that does not exist\<close>

text \<open>
  C1. For a path that names no file, \<^verbatim>\<open>load_neos\<close> and \<^verbatim>\<open>load_approaches\<close> print
  \<^verbatim>\<open>File not found\<close>, and then the \<^verbatim>\<open>finally\<close> clause raises
  \<^verbatim>\<open>UnboundLocalError\<close>, because \<open>f\<close> was never bound: the exception reaches the caller.
\<close>

theorem load_missing_file:
  assumes "neo_files neo_csv_path = None" and "cad_files cad_json_path = None"
  shows "load_neos neo_files neo_csv_path = ([''File not found''], Inl UnboundLocalError)
       \<and> load_approaches cd_to_datetime cad_files cad_json_path
           = ([''File not found''], Inl UnboundLocalError)"
  using assms by (simp add: load_neos_def load_approaches_def)

theorem load_missing_file_witness:
  "(load_neos Map.empty ''neos.csv'' :: string list \<times> (exn + unit NearEarthObject list option))
     = ([''File not found''], Inl UnboundLocalError)
   \<and> load_approaches (\<lambda>v. Inr ()) Map.empty ''cad.json''
     = ([''File not found''], Inl UnboundLocalError)"
  using load_missing_file [of Map.empty "''neos.csv''" Map.empty "''cad.json''" "\<lambda>v. Inr ()"]
  by simp

section \<open>Construction of objects\<close>

text \<open>
  C4. A constructed object is hazardous exactly when the row carries the string \<open>Y\<close> in
  the field \<open>pha\<close>. Any other value there, such as \<open>y\<close>, \<open>N\<close>, the empty string or
  \<^verbatim>\<open>None\<close>, gives an object that is not hazardous.
\<close>

theorem hazardous_iff_Y:
  assumes "NearEarthObject_init info = Inr obj"
  shows "hazardous obj \<longleftrightarrow> info ''pha'' = Some (PStr ''Y'')"
  using assms by (auto simp: NearEarthObject_init_eq_Inr)

theorem hazardous_iff_Y_witness:
  "NearEarthObject_init [''pdes'' \<mapsto> PStr ''433'', ''name'' \<mapsto> PStr ''Eros'',
       ''diameter'' \<mapsto> PStr ''16.84'', ''pha'' \<mapsto> PStr ''Y'']
     = Inr (NearEarthObject (PStr ''433'') (PStr ''Eros'') (binary64 (1684 / 100)) True []
              :: unit NearEarthObject)
   \<and> hazardous (NearEarthObject (PStr ''433'') (PStr ''Eros'') (binary64 (1684 / 100)) True []
              :: unit NearEarthObject)
   \<and> [''pdes'' \<mapsto> PStr ''433'', ''name'' \<mapsto> PStr ''Eros'',
       ''diameter'' \<mapsto> PStr ''16.84'', ''pha'' \<mapsto> PStr ''Y''] ''pha'' = Some (PStr ''Y'')"
proof -
  have row: "NearEarthObject_init [''pdes'' \<mapsto> PStr ''433'', ''name'' \<mapsto> PStr ''Eros'',
       ''diameter'' \<mapsto> PStr ''16.84'', ''pha'' \<mapsto> PStr ''Y'']
     = Inr (NearEarthObject (PStr ''433'') (PStr ''Eros'') (binary64 (1684 / 100)) True []
              :: unit NearEarthObject)"
    using eros_row [of "''Y''"] by simp
  from hazardous_iff_Y [OF row] row show ?thesis by simp
qed

text \<open>
  C10. The constructor reads the fields \<open>pdes\<close>, \<open>name\<close>, \<open>diameter\<close> and \<open>pha\<close> only:
  two rows that agree on these four give the same outcome, be it the same object or the
  same exception, whatever else they carry; and the approaches of a constructed object
  are empty.
\<close>

theorem init_reads_four_fields:
  assumes "r1 ''pdes'' = r2 ''pdes''" and "r1 ''name'' = r2 ''name''"
    and "r1 ''diameter'' = r2 ''diameter''" and "r1 ''pha'' = r2 ''pha''"
  shows "(NearEarthObject_init r1 :: exn + 'dt NearEarthObject) = NearEarthObject_init r2
       \<and> (\<forall>obj :: 'dt NearEarthObject. NearEarthObject_init r1 = Inr obj \<longrightarrow> approaches obj = [])"
proof
  show "(NearEarthObject_init r1 :: exn + 'dt NearEarthObject) = NearEarthObject_init r2"
    using assms by (simp add: NearEarthObject_init_def getitem_def)
  show "\<forall>obj :: 'dt NearEarthObject. NearEarthObject_init r1 = Inr obj \<longrightarrow> approaches obj = []"
    by (auto simp: NearEarthObject_init_eq_Inr)
qed

theorem init_reads_four_fields_witness:
  "(NearEarthObject_init [''pdes'' \<mapsto> PStr ''433'', ''name'' \<mapsto> PStr ''Eros'',
       ''diameter'' \<mapsto> PStr ''16.84'', ''pha'' \<mapsto> PStr ''N'', ''orbit_id'' \<mapsto> PStr ''659'']
      :: exn + unit NearEarthObject)
     = NearEarthObject_init [''pdes'' \<mapsto> PStr ''433'', ''name'' \<mapsto> PStr ''Eros'',
       ''diameter'' \<mapsto> PStr ''16.84'', ''pha'' \<mapsto> PStr ''N'']
   \<and> (NearEarthObject_init [''pdes'' \<mapsto> PStr ''433'', ''name'' \<mapsto> PStr ''Eros'',
       ''diameter'' \<mapsto> PStr ''16.84'', ''pha'' \<mapsto> PStr ''N'', ''orbit_id'' \<mapsto> PStr ''659'']
      :: exn + unit NearEarthObject)
     = Inr (NearEarthObject (PStr ''433'') (PStr ''Eros'') (binary64 (1684 / 100)) False [])"
proof -
  let ?r1 = "[''pdes'' \<mapsto> PStr ''433'', ''name'' \<mapsto> PStr ''Eros'',
       ''diameter'' \<mapsto> PStr ''16.84'', ''pha'' \<mapsto> PStr ''N'', ''orbit_id'' \<mapsto> PStr ''659'']"
  let ?r2 = "[''pdes'' \<mapsto> PStr ''433'', ''name'' \<mapsto> PStr ''Eros'',
       ''diameter'' \<mapsto> PStr ''16.84'', ''pha'' \<mapsto> PStr ''N'']"
  have "?r1 ''pdes'' = ?r2 ''pdes''" and "?r1 ''name'' = ?r2 ''name''"
    and "?r1 ''diameter'' = ?r2 ''diameter''" and "?r1 ''pha'' = ?r2 ''pha''"
    by simp_all
  from init_reads_four_fields [OF this, where ?'dt = unit]
  have "(NearEarthObject_init ?r1 :: exn + unit NearEarthObject) = NearEarthObject_init ?r2" ..
  with eros_row [of "''N''", where ?'a = unit] show ?thesis by simp
qed

text \<open>
  C3, as the code has it. The constructors subscript their keyword arguments, so a row
  that lacks the name of an optional field raises \<^verbatim>\<open>KeyError\<close>: an object without
  \<open>name\<close> or without \<open>diameter\<close>, an approach with its designation only or without
  \<open>distance\<close>.
\<close>

theorem absent_fields_default_counterexample:
  "(NearEarthObject_init [''pdes'' \<mapsto> PStr ''433'', ''diameter'' \<mapsto> PStr ''16.84'',
        ''pha'' \<mapsto> PStr ''N''] :: exn + unit NearEarthObject) = Inl KeyError
   \<and> (NearEarthObject_init [''pdes'' \<mapsto> PStr ''433'', ''name'' \<mapsto> PStr ''Eros'',
        ''pha'' \<mapsto> PStr ''N''] :: exn + unit NearEarthObject) = Inl KeyError
   \<and> (CloseApproach_init Inr [''designation'' \<mapsto> PStr ''433''] :: exn + pyval CloseApproach)
       = Inl KeyError
   \<and> (CloseApproach_init Inr [''designation'' \<mapsto> PStr ''433'', ''time'' \<mapsto> PStr ''1900-Jan-01 00:00'',
        ''velocity'' \<mapsto> PStr ''5.58''] :: exn + pyval CloseApproach) = Inl KeyError"
  by (simp add: NearEarthObject_init_def CloseApproach_init_def)

text \<open>
  C3, amended. For rows that carry the field names, construction tolerates absent
  optional values. A row that carries the four names of an object, with the diameter
  absent or accepted by \<^verbatim>\<open>float\<close>, gives an object; in a constructed object an absent
  designation has become the empty string, an absent name \<^verbatim>\<open>None\<close> and an absent
  diameter not-a-number. Likewise the four keywords of an approach, with the time absent
  or accepted by \<^verbatim>\<open>cd_to_datetime\<close> and the distance and the velocity absent or accepted
  by \<^verbatim>\<open>float\<close>, give an approach; in a constructed approach an absent designation has
  become the empty string, an absent time \<^verbatim>\<open>None\<close>, an absent distance \<open>0.0\<close> and an
  absent velocity \<open>0.0\<close>.
\<close>

theorem absent_fields_default:
  fixes obj :: "'dt NearEarthObject" and a :: "'dt CloseApproach"
  shows
  "(info ''pdes'' \<noteq> None \<and> info ''name'' \<noteq> None \<and> info ''pha'' \<noteq> None \<and>
    (absent (info ''diameter'') \<or> (\<exists>x y. info ''diameter'' = Some x \<and> py_float x = Inr y))
      \<longrightarrow> (\<exists>obj :: 'dt NearEarthObject. NearEarthObject_init info = Inr obj))
   \<and> (NearEarthObject_init info = Inr obj \<longrightarrow>
        (absent (info ''pdes'') \<longrightarrow> designation obj = PStr []) \<and>
        (absent (info ''name'') \<longrightarrow> name obj = PNone) \<and>
        (absent (info ''diameter'') \<longrightarrow> diameter obj = NaN))
   \<and> (kw ''designation'' \<noteq> None \<and>
       (absent (kw ''time'') \<or> (\<exists>t d. kw ''time'' = Some t \<and> cd_to_datetime t = Inr d)) \<and>
       (absent (kw ''distance'') \<or> (\<exists>x y. kw ''distance'' = Some x \<and> py_float x = Inr y)) \<and>
       (absent (kw ''velocity'') \<or> (\<exists>x y. kw ''velocity'' = Some x \<and> py_float x = Inr y))
      \<longrightarrow> (\<exists>a :: 'dt CloseApproach. CloseApproach_init cd_to_datetime kw = Inr a))
   \<and> (CloseApproach_init cd_to_datetime kw = Inr a \<longrightarrow>
        (absent (kw ''designation'') \<longrightarrow> approach_designation a = PStr []) \<and>
        (absent (kw ''time'') \<longrightarrow> time a = None) \<and>
        (absent (kw ''distance'') \<longrightarrow> distance a = Finite 0) \<and>
        (absent (kw ''velocity'') \<longrightarrow> velocity a = Finite 0))"
proof (intro conjI)
  show "info ''pdes'' \<noteq> None \<and> info ''name'' \<noteq> None \<and> info ''pha'' \<noteq> None \<and>
    (absent (info ''diameter'') \<or> (\<exists>x y. info ''diameter'' = Some x \<and> py_float x = Inr y))
      \<longrightarrow> (\<exists>obj :: 'dt NearEarthObject. NearEarthObject_init info = Inr obj)"
  proof
    assume h: "info ''pdes'' \<noteq> None \<and> info ''name'' \<noteq> None \<and> info ''pha'' \<noteq> None \<and>
      (absent (info ''diameter'') \<or> (\<exists>x y. info ''diameter'' = Some x \<and> py_float x = Inr y))"
    then obtain pdes nm pha dia where k: "info ''pdes'' = Some pdes" "info ''name'' = Some nm"
        "info ''pha'' = Some pha" "info ''diameter'' = Some dia"
      by auto
    from h k have "\<exists>d. (if truthy dia then py_float dia else Inr NaN) = Inr d"
      by auto
    then show "\<exists>obj :: 'dt NearEarthObject. NearEarthObject_init info = Inr obj"
      unfolding NearEarthObject_init_eq_Inr using k by blast
  qed
  show "NearEarthObject_init info = Inr obj \<longrightarrow>
        (absent (info ''pdes'') \<longrightarrow> designation obj = PStr []) \<and>
        (absent (info ''name'') \<longrightarrow> name obj = PNone) \<and>
        (absent (info ''diameter'') \<longrightarrow> diameter obj = NaN)"
  proof
    assume "NearEarthObject_init info = Inr obj"
    then obtain pdes nm dia d pha where
      k: "info ''pdes'' = Some pdes" "info ''name'' = Some nm" "info ''diameter'' = Some dia" and
      d: "(if truthy dia then py_float dia else Inr NaN) = Inr d" and
      obj: "obj = NearEarthObject (py_or pdes (PStr [])) (py_or nm PNone) d (pha = PStr ''Y'') []"
      unfolding NearEarthObject_init_eq_Inr by blast
    have "absent (info ''pdes'') \<longrightarrow> designation obj = PStr []"
      using k(1) by (auto simp: obj py_or_def)
    moreover have "absent (info ''name'') \<longrightarrow> name obj = PNone"
      using k(2) by (auto simp: obj py_or_def)
    moreover have "absent (info ''diameter'') \<longrightarrow> diameter obj = NaN"
      using k(3) d by (auto simp: obj)
    ultimately show "(absent (info ''pdes'') \<longrightarrow> designation obj = PStr []) \<and>
        (absent (info ''name'') \<longrightarrow> name obj = PNone) \<and>
        (absent (info ''diameter'') \<longrightarrow> diameter obj = NaN)"
      by blast
  qed
  show "kw ''designation'' \<noteq> None \<and>
       (absent (kw ''time'') \<or> (\<exists>t d. kw ''time'' = Some t \<and> cd_to_datetime t = Inr d)) \<and>
       (absent (kw ''distance'') \<or> (\<exists>x y. kw ''distance'' = Some x \<and> py_float x = Inr y)) \<and>
       (absent (kw ''velocity'') \<or> (\<exists>x y. kw ''velocity'' = Some x \<and> py_float x = Inr y))
      \<longrightarrow> (\<exists>a :: 'dt CloseApproach. CloseApproach_init cd_to_datetime kw = Inr a)"
  proof
    assume h: "kw ''designation'' \<noteq> None \<and>
       (absent (kw ''time'') \<or> (\<exists>t d. kw ''time'' = Some t \<and> cd_to_datetime t = Inr d)) \<and>
       (absent (kw ''distance'') \<or> (\<exists>x y. kw ''distance'' = Some x \<and> py_float x = Inr y)) \<and>
       (absent (kw ''velocity'') \<or> (\<exists>x y. kw ''velocity'' = Some x \<and> py_float x = Inr y))"
    then obtain des t dist vel where k: "kw ''designation'' = Some des" "kw ''time'' = Some t"
        "kw ''distance'' = Some dist" "kw ''velocity'' = Some vel"
      by auto
    from h k have
      "\<exists>tm. (if truthy t then bind_exn (cd_to_datetime t) (\<lambda>d. Inr (Some d)) else Inr None) = Inr tm"
      "\<exists>di. (if truthy dist then py_float dist else Inr (Finite 0)) = Inr di"
      "\<exists>ve. (if truthy vel then py_float vel else Inr (Finite 0)) = Inr ve"
      by auto
    then show "\<exists>a :: 'dt CloseApproach. CloseApproach_init cd_to_datetime kw = Inr a"
      unfolding CloseApproach_init_eq_Inr using k by blast
  qed
  show "CloseApproach_init cd_to_datetime kw = Inr a \<longrightarrow>
        (absent (kw ''designation'') \<longrightarrow> approach_designation a = PStr []) \<and>
        (absent (kw ''time'') \<longrightarrow> time a = None) \<and>
        (absent (kw ''distance'') \<longrightarrow> distance a = Finite 0) \<and>
        (absent (kw ''velocity'') \<longrightarrow> velocity a = Finite 0)"
  proof
    assume "CloseApproach_init cd_to_datetime kw = Inr a"
    then obtain des t dist vel tm di ve where
      k: "kw ''designation'' = Some des" "kw ''time'' = Some t"
         "kw ''distance'' = Some dist" "kw ''velocity'' = Some vel" and
      tm: "(if truthy t then bind_exn (cd_to_datetime t) (\<lambda>d. Inr (Some d)) else Inr None) = Inr tm" and
      di: "(if truthy dist then py_float dist else Inr (Finite 0)) = Inr di" and
      ve: "(if truthy vel then py_float vel else Inr (Finite 0)) = Inr ve" and
      a: "a = CloseApproach (py_or des (PStr [])) tm di ve None"
      unfolding CloseApproach_init_eq_Inr by blast
    have "absent (kw ''designation'') \<longrightarrow> approach_designation a = PStr []"
      using k(1) by (auto simp: a py_or_def)
    moreover have "absent (kw ''time'') \<longrightarrow> time a = None"
      using k(2) tm by (auto simp: a)
    moreover have "absent (kw ''distance'') \<longrightarrow> distance a = Finite 0"
      using k(3) di by (auto simp: a)
    moreover have "absent (kw ''velocity'') \<longrightarrow> velocity a = Finite 0"
      using k(4) ve by (auto simp: a)
    ultimately show "(absent (kw ''designation'') \<longrightarrow> approach_designation a = PStr []) \<and>
        (absent (kw ''time'') \<longrightarrow> time a = None) \<and>
        (absent (kw ''distance'') \<longrightarrow> distance a = Finite 0) \<and>
        (absent (kw ''velocity'') \<longrightarrow> velocity a = Finite 0)"
      by blast
  qed
qed

theorem absent_fields_default_witness:
  "NearEarthObject_init [''pdes'' \<mapsto> PNone, ''name'' \<mapsto> PStr [], ''diameter'' \<mapsto> PNone,
       ''pha'' \<mapsto> PStr ''N'']
     = Inr (NearEarthObject (PStr []) PNone NaN False [] :: pyval NearEarthObject)
   \<and> CloseApproach_init Inr [''designation'' \<mapsto> PStr [], ''time'' \<mapsto> PNone,
       ''distance'' \<mapsto> PStr [], ''velocity'' \<mapsto> PNone]
     = Inr (CloseApproach (PStr []) None (Finite 0) (Finite 0) None :: pyval CloseApproach)"
proof -
  let ?info = "[''pdes'' \<mapsto> PNone, ''name'' \<mapsto> PStr [], ''diameter'' \<mapsto> PNone,
       ''pha'' \<mapsto> PStr ''N'']"
  let ?kw = "[''designation'' \<mapsto> PStr [], ''time'' \<mapsto> PNone,
       ''distance'' \<mapsto> PStr [], ''velocity'' \<mapsto> PNone]"
  have "\<exists>obj :: pyval NearEarthObject. NearEarthObject_init ?info = Inr obj"
    and "\<exists>a :: pyval CloseApproach. CloseApproach_init Inr ?kw = Inr a"
    using absent_fields_default [of ?info _ ?kw Inr] by simp_all
  then obtain obj :: "pyval NearEarthObject" and a :: "pyval CloseApproach"
    where obj: "NearEarthObject_init ?info = Inr obj" and a: "CloseApproach_init Inr ?kw = Inr a"
    by blast
  from absent_fields_default [of ?info obj ?kw Inr a] obj a
  have fields: "designation obj = PStr []" "name obj = PNone" "diameter obj = NaN"
    "approach_designation a = PStr []" "time a = None" "distance a = Finite 0"
    "velocity a = Finite 0"
    by simp_all
  from obj have rest: "hazardous obj = False" "approaches obj = []"
    by (auto simp: NearEarthObject_init_eq_Inr)
  from a have link: "neo a = None"
    by (auto simp: CloseApproach_init_eq_Inr)
  have "obj = NearEarthObject (PStr []) PNone NaN False []"
    using fields rest by (cases obj) simp
  moreover have "a = CloseApproach (PStr []) None (Finite 0) (Finite 0) None"
    using fields link by (cases a) simp
  ultimately have "NearEarthObject_init ?info
      = Inr (NearEarthObject (PStr []) PNone NaN False [] :: pyval NearEarthObject)"
    and "CloseApproach_init Inr ?kw
      = Inr (CloseApproach (PStr []) None (Finite 0) (Finite 0) None :: pyval CloseApproach)"
    using obj a by simp_all
  then show ?thesis by (rule conjI)
qed

text \<open>
  C2, as the code has it. A diameter, distance or velocity that is a string, not empty
  and not accepted by \<^verbatim>\<open>float\<close>, is not replaced by the default: the conversion raises
  \<^verbatim>\<open>ValueError\<close>, and so does the constructor, once the fields read before it are there
  and well formed. First the three fields at the text \<open>abc\<close>.
\<close>

theorem malformed_value_counterexample:
  "(NearEarthObject_init [''pdes'' \<mapsto> PStr ''433'', ''name'' \<mapsto> PStr ''Eros'',
        ''diameter'' \<mapsto> PStr ''abc'', ''pha'' \<mapsto> PStr ''N''] :: exn + unit NearEarthObject)
     = Inl ValueError
   \<and> (CloseApproach_init Inr [''designation'' \<mapsto> PStr ''433'', ''time'' \<mapsto> PStr ''1900-Jan-01 00:00'',
        ''distance'' \<mapsto> PStr ''abc'', ''velocity'' \<mapsto> PStr ''5.58''] :: exn + pyval CloseApproach)
     = Inl ValueError
   \<and> (CloseApproach_init Inr [''designation'' \<mapsto> PStr ''433'', ''time'' \<mapsto> PStr ''1900-Jan-01 00:00'',
        ''distance'' \<mapsto> PStr ''0.0921'', ''velocity'' \<mapsto> PStr ''abc''] :: exn + pyval CloseApproach)
     = Inl ValueError"
  by (simp add: NearEarthObject_init_def CloseApproach_init_def float_of_string_abc
        float_of_string_0_0921)

text \<open>
  C2, amended: for every such row the constructor raises \<^verbatim>\<open>ValueError\<close>.
\<close>

theorem malformed_value_raises:
  "(info ''pdes'' \<noteq> None \<and> info ''name'' \<noteq> None \<and>
    info ''diameter'' = Some (PStr s) \<and> s \<noteq> [] \<and> float_of_string s = None
      \<longrightarrow> (NearEarthObject_init info :: exn + 'dt NearEarthObject) = Inl ValueError)
   \<and> (kw ''designation'' \<noteq> None \<and>
       (absent (kw ''time'') \<or> (\<exists>t d. kw ''time'' = Some t \<and> cd_to_datetime t = Inr d)) \<and>
       kw ''distance'' = Some (PStr s) \<and> s \<noteq> [] \<and> float_of_string s = None
      \<longrightarrow> (CloseApproach_init cd_to_datetime kw :: exn + 'dt CloseApproach) = Inl ValueError)
   \<and> (kw' ''designation'' \<noteq> None \<and>
       (absent (kw' ''time'') \<or> (\<exists>t d. kw' ''time'' = Some t \<and> cd_to_datetime t = Inr d)) \<and>
       (absent (kw' ''distance'') \<or> (\<exists>x y. kw' ''distance'' = Some x \<and> py_float x = Inr y)) \<and>
       kw' ''velocity'' = Some (PStr s) \<and> s \<noteq> [] \<and> float_of_string s = None
      \<longrightarrow> (CloseApproach_init cd_to_datetime kw' :: exn + 'dt CloseApproach) = Inl ValueError)"
proof (intro conjI impI)
  assume "info ''pdes'' \<noteq> None \<and> info ''name'' \<noteq> None \<and>
    info ''diameter'' = Some (PStr s) \<and> s \<noteq> [] \<and> float_of_string s = None"
  then show "(NearEarthObject_init info :: exn + 'dt NearEarthObject) = Inl ValueError"
    by (auto simp: NearEarthObject_init_def)
next
  assume h: "kw ''designation'' \<noteq> None \<and>
       (absent (kw ''time'') \<or> (\<exists>t d. kw ''time'' = Some t \<and> cd_to_datetime t = Inr d)) \<and>
       kw ''distance'' = Some (PStr s) \<and> s \<noteq> [] \<and> float_of_string s = None"
  then obtain des t where k: "kw ''designation'' = Some des" "kw ''time'' = Some t"
    by auto
  from h k have "\<exists>tm. (if truthy t then bind_exn (cd_to_datetime t) (\<lambda>d. Inr (Some d)) else Inr None) = Inr tm"
    by auto
  then obtain tm where
    tm: "(if truthy t then bind_exn (cd_to_datetime t) (\<lambda>d. Inr (Some d)) else Inr None) = Inr tm" ..
  from h have d: "kw ''distance'' = Some (PStr s)" "s \<noteq> []" "float_of_string s = None"
    by simp_all
  show "(CloseApproach_init cd_to_datetime kw :: exn + 'dt CloseApproach) = Inl ValueError"
    unfolding CloseApproach_init_def by (simp add: k tm d)
next
  assume h: "kw' ''designation'' \<noteq> None \<and>
       (absent (kw' ''time'') \<or> (\<exists>t d. kw' ''time'' = Some t \<and> cd_to_datetime t = Inr d)) \<and>
       (absent (kw' ''distance'') \<or> (\<exists>x y. kw' ''distance'' = Some x \<and> py_float x = Inr y)) \<and>
       kw' ''velocity'' = Some (PStr s) \<and> s \<noteq> [] \<and> float_of_string s = None"
  then obtain des t x where k: "kw' ''designation'' = Some des" "kw' ''time'' = Some t"
      "kw' ''distance'' = Some x"
    by auto
  from h k have "\<exists>tm. (if truthy t then bind_exn (cd_to_datetime t) (\<lambda>d. Inr (Some d)) else Inr None) = Inr tm"
    by auto
  then obtain tm where
    tm: "(if truthy t then bind_exn (cd_to_datetime t) (\<lambda>d. Inr (Some d)) else Inr None) = Inr tm" ..
  from h k have "\<exists>di. (if truthy x then py_float x else py_float (PFloat (Finite 0))) = Inr di"
    by auto
  then obtain di where
    di: "(if truthy x then py_float x else py_float (PFloat (Finite 0))) = Inr di" ..
  from h have v: "kw' ''velocity'' = Some (PStr s)" "s \<noteq> []" "float_of_string s = None"
    by simp_all
  have "CloseApproach_init cd_to_datetime kw'
      = bind_exn (if truthy x then py_float x else py_float (PFloat (Finite 0))) (\<lambda>di.
          bind_exn (py_float (PStr s)) (\<lambda>ve. Inr (CloseApproach (py_or des (PStr [])) tm di ve None)))"
    unfolding CloseApproach_init_def by (simp add: k tm v del: py_float.simps)
  also have "\<dots> = Inl ValueError"
    unfolding di by (simp add: v)
  finally show "(CloseApproach_init cd_to_datetime kw' :: exn + 'dt CloseApproach) = Inl ValueError" .
qed

theorem malformed_value_raises_witness:
  "(NearEarthObject_init [''pdes'' \<mapsto> PStr ''433'', ''name'' \<mapsto> PStr ''Eros'',
        ''diameter'' \<mapsto> PStr ''n/a'', ''pha'' \<mapsto> PStr ''N''] :: exn + pyval NearEarthObject)
     = Inl ValueError
   \<and> (CloseApproach_init Inr [''designation'' \<mapsto> PStr ''433'', ''time'' \<mapsto> PStr [],
        ''distance'' \<mapsto> PStr ''n/a'', ''velocity'' \<mapsto> PStr ''5.58''] :: exn + pyval CloseApproach)
     = Inl ValueError
   \<and> (CloseApproach_init Inr [''designation'' \<mapsto> PStr ''433'', ''time'' \<mapsto> PStr [],
        ''distance'' \<mapsto> PStr ''0.0921'', ''velocity'' \<mapsto> PStr ''n/a''] :: exn + pyval CloseApproach)
     = Inl ValueError"
proof -
  let ?info = "[''pdes'' \<mapsto> PStr ''433'', ''name'' \<mapsto> PStr ''Eros'',
        ''diameter'' \<mapsto> PStr ''n/a'', ''pha'' \<mapsto> PStr ''N'']"
  let ?kw = "[''designation'' \<mapsto> PStr ''433'', ''time'' \<mapsto> PStr [],
        ''distance'' \<mapsto> PStr ''n/a'', ''velocity'' \<mapsto> PStr ''5.58'']"
  let ?kw' = "[''designation'' \<mapsto> PStr ''433'', ''time'' \<mapsto> PStr [],
        ''distance'' \<mapsto> PStr ''0.0921'', ''velocity'' \<mapsto> PStr ''n/a'']"
  note inst = malformed_value_raises [of ?info "''n/a''" ?kw Inr ?kw']
  have 1: "?info ''pdes'' \<noteq> None \<and> ?info ''name'' \<noteq> None \<and>
    ?info ''diameter'' = Some (PStr ''n/a'') \<and> ''n/a'' \<noteq> [] \<and> float_of_string ''n/a'' = None"
    by (simp add: float_of_string_n_a)
  have 2: "?kw ''designation'' \<noteq> None \<and>
       (absent (?kw ''time'') \<or> (\<exists>t d. ?kw ''time'' = Some t \<and> Inr t = (Inr d :: exn + pyval))) \<and>
       ?kw ''distance'' = Some (PStr ''n/a'') \<and> ''n/a'' \<noteq> [] \<and> float_of_string ''n/a'' = None"
    by (simp add: float_of_string_n_a)
  have 3: "?kw' ''designation'' \<noteq> None \<and>
       (absent (?kw' ''time'') \<or> (\<exists>t d. ?kw' ''time'' = Some t \<and> Inr t = (Inr d :: exn + pyval))) \<and>
       (absent (?kw' ''distance'') \<or> (\<exists>x y. ?kw' ''distance'' = Some x \<and> py_float x = Inr y)) \<and>
       ?kw' ''velocity'' = Some (PStr ''n/a'') \<and> ''n/a'' \<noteq> [] \<and> float_of_string ''n/a'' = None"
    by (simp add: float_of_string_n_a float_of_string_0_0921)
  from inst 1 2 3 show ?thesis by blast
qed

section \<open>The full name of an object\<close>

text \<open>
  C5. For every object that \<^verbatim>\<open>load_neos\<close> returns, \<^verbatim>\<open>fullname\<close> is the designation
  followed by the name in parentheses when the object has a name; else the designation
  when that is not empty; else the text \<open>(No name specified)\<close>.
\<close>

theorem fullname_of_loaded:
  assumes "load_neos files path = (out, Inr (Some objs))" and "obj \<in> set objs"
  shows "fullname str_of obj =
     (if name obj \<noteq> PNone then
        format str_of (designation obj) @ '' ('' @ format str_of (name obj) @ '')''
      else if designation obj \<noteq> PStr [] then format str_of (designation obj)
      else ''(No name specified)'')"
proof -
  from load_neos_eq_Inr [OF assms(1)] obtain rows
    where "map_exn NearEarthObject_init rows = Inr objs" by blast
  from map_exn_member [OF this assms(2)] obtain info
    where "NearEarthObject_init info = Inr obj" by blast
  then obtain pdes nm where "designation obj = py_or pdes (PStr [])" and "name obj = py_or nm PNone"
    by (auto simp: NearEarthObject_init_eq_Inr)
  then show ?thesis
    by (simp add: fullname_def truthy_py_or_None truthy_py_or_empty)
qed

theorem fullname_of_loaded_witness:
  "load_neos [''neos.csv'' \<mapsto> [[''pdes'' \<mapsto> PStr ''433'', ''name'' \<mapsto> PStr ''Eros'',
       ''diameter'' \<mapsto> PStr ''16.84'', ''pha'' \<mapsto> PStr ''N'']]] ''neos.csv''
     = ([], Inr (Some [NearEarthObject (PStr ''433'') (PStr ''Eros'') (binary64 (1684 / 100)) False []
                        :: unit NearEarthObject]))
   \<and> fullname (\<lambda>v. []) (NearEarthObject (PStr ''433'') (PStr ''Eros'') (binary64 (1684 / 100)) False []
                        :: unit NearEarthObject) = ''433 (Eros)''"
proof -
  let ?eros = "NearEarthObject (PStr ''433'') (PStr ''Eros'') (binary64 (1684 / 100)) False []
                 :: unit NearEarthObject"
  have mem: "?eros \<in> set [?eros]" by simp
  from fullname_of_loaded [OF load_eros mem, of "\<lambda>v. []"] load_eros
  show ?thesis by (simp add: format_def)
qed

section \<open>Loading approaches\<close>








section \<open>Serializing an object and reading it back\<close>

lemma py_or_idem [simp]: "py_or (py_or v d) d = py_or v d"
  by (simp add: py_or_def)

lemma float_of_string_0: "float_of_string ''0'' = Some (Finite 0)"
  by (simp add: float_parse_defs binary64_def)

text \<open>
  C7, as the code has it. The object of the row \<open>433\<close>, \<open>Eros\<close>, diameter \<open>0\<close>, flag \<open>Y\<close>
  is hazardous and has the diameter \<open>0.0\<close>. Its serialized form, given to the constructor
  as it is, raises \<^verbatim>\<open>KeyError\<close>; given under the constructor's field names, it yields an
  object that is not hazardous and has the diameter not-a-number.
\<close>

theorem serialize_reread_counterexample:
  "NearEarthObject_init [''pdes'' \<mapsto> PStr ''433'', ''name'' \<mapsto> PStr ''Eros'',
       ''diameter'' \<mapsto> PStr ''0'', ''pha'' \<mapsto> PStr ''Y'']
     = Inr (NearEarthObject (PStr ''433'') (PStr ''Eros'') (Finite 0) True [] :: unit NearEarthObject)
   \<and> NearEarthObject_init
         (map_of (NearEarthObject_serialize (NearEarthObject (PStr ''433'') (PStr ''Eros'') (Finite 0) True []
                               :: unit NearEarthObject)))
     = (Inl KeyError :: exn + unit NearEarthObject)
   \<and> NearEarthObject_init
         (fields_of_serialized (NearEarthObject_serialize (NearEarthObject (PStr ''433'') (PStr ''Eros'') (Finite 0) True []
                               :: unit NearEarthObject)))
     = Inr (NearEarthObject (PStr ''433'') (PStr ''Eros'') NaN False [] :: unit NearEarthObject)"
  by (simp add: NearEarthObject_init_def NearEarthObject_serialize_def fields_of_serialized_def py_or_def
        float_of_string_0)

text \<open>
  C7, amended. For every constructed object, \<^verbatim>\<open>serialize\<close> returns its designation,
  name, diameter and hazard flag under the keys \<open>designation\<close>, \<open>name\<close>, \<open>diameter_km\<close>
  and \<open>potentially_hazardous\<close>. Given to the constructor as it is, this dictionary raises
  \<^verbatim>\<open>KeyError\<close>. Given under the constructor's field names it yields an object with the
  same designation and the same name; the diameter is the same unless it is \<open>0.0\<close>,
  which is read as absent and becomes not-a-number; the hazard flag is false whatever
  it was, since the serialized flag is a truth value and never the string \<open>Y\<close>.
\<close>

theorem serialize_reread:
  assumes "NearEarthObject_init info = Inr obj"
  shows "NearEarthObject_serialize obj
           = [(''designation'', designation obj), (''name'', name obj),
              (''diameter_km'', PFloat (diameter obj)),
              (''potentially_hazardous'', PBool (hazardous obj))]
       \<and> NearEarthObject_init (map_of (NearEarthObject_serialize obj))
           = (Inl KeyError :: exn + 'dt NearEarthObject)
       \<and> NearEarthObject_init (fields_of_serialized (NearEarthObject_serialize obj))
           = Inr (NearEarthObject (designation obj) (name obj)
                    (if diameter obj = Finite 0 then NaN else diameter obj) False []
                  :: 'dt NearEarthObject)"
proof (intro conjI)
  show "NearEarthObject_serialize obj
           = [(''designation'', designation obj), (''name'', name obj),
              (''diameter_km'', PFloat (diameter obj)),
              (''potentially_hazardous'', PBool (hazardous obj))]"
    by (simp add: NearEarthObject_serialize_def)
  show "NearEarthObject_init (map_of (NearEarthObject_serialize obj))
          = (Inl KeyError :: exn + 'dt NearEarthObject)"
    by (simp add: NearEarthObject_init_def NearEarthObject_serialize_def)
  from assms obtain pdes nm d pha where
    obj: "obj = NearEarthObject (py_or pdes (PStr [])) (py_or nm PNone) d (pha = PStr ''Y'') []"
    unfolding NearEarthObject_init_eq_Inr by blast
  show "NearEarthObject_init (fields_of_serialized (NearEarthObject_serialize obj))
           = Inr (NearEarthObject (designation obj) (name obj)
                    (if diameter obj = Finite 0 then NaN else diameter obj) False []
                  :: 'dt NearEarthObject)"
    by (simp add: NearEarthObject_init_def NearEarthObject_serialize_def fields_of_serialized_def obj)
qed

theorem serialize_reread_witness:
  "NearEarthObject_init [''pdes'' \<mapsto> PStr ''433'', ''name'' \<mapsto> PStr ''Eros'',
       ''diameter'' \<mapsto> PStr [], ''pha'' \<mapsto> PStr ''Y'']
     = Inr (NearEarthObject (PStr ''433'') (PStr ''Eros'') NaN True [] :: unit NearEarthObject)
   \<and> NearEarthObject_serialize (NearEarthObject (PStr ''433'') (PStr ''Eros'') NaN True []
                               :: unit NearEarthObject)
     = [(''designation'', PStr ''433''), (''name'', PStr ''Eros''), (''diameter_km'', PFloat NaN),
        (''potentially_hazardous'', PBool True)]
   \<and> NearEarthObject_init
         (map_of (NearEarthObject_serialize (NearEarthObject (PStr ''433'') (PStr ''Eros'') NaN True []
                               :: unit NearEarthObject)))
     = (Inl KeyError :: exn + unit NearEarthObject)
   \<and> NearEarthObject_init
         (fields_of_serialized (NearEarthObject_serialize (NearEarthObject (PStr ''433'') (PStr ''Eros'') NaN True []
                               :: unit NearEarthObject)))
     = Inr (NearEarthObject (PStr ''433'') (PStr ''Eros'') NaN False [] :: unit NearEarthObject)"
proof -
  have row: "NearEarthObject_init [''pdes'' \<mapsto> PStr ''433'', ''name'' \<mapsto> PStr ''Eros'',
       ''diameter'' \<mapsto> PStr [], ''pha'' \<mapsto> PStr ''Y'']
     = Inr (NearEarthObject (PStr ''433'') (PStr ''Eros'') NaN True [] :: unit NearEarthObject)"
    by (simp add: NearEarthObject_init_def py_or_def)
  from serialize_reread [OF row, where ?'dt = unit] row show ?thesis
    by (simp add: NearEarthObject_init_def NearEarthObject_serialize_def fields_of_serialized_def)
qed

section \<open>Writing results\<close>

lemma time_str_eq [simp]: "time_str datetime_to_str a = datetime_to_str (time a)"
  by (simp add: time_str_def)

lemma dict_merge_neo:
  "dict_merge [(''datetime_utc'', x), (''distance_au'', y), (''velocity_km_s'', z)] [(''neo'', n)]
     = [(''datetime_utc'', x), (''distance_au'', y), (''velocity_km_s'', z), (''neo'', n)]"
  by (simp add: dict_merge_def)

lemma json_entries_linked:
  assumes "\<forall>a \<in> set results. neo a \<noteq> None"
    and "\<forall>a \<in> set results. datetime_to_str (time a) = Inr (ts (time a))"
  shows "json_entries datetime_to_str acc results
       = Inr (acc @ map (\<lambda>a. PDict
            [(''datetime_utc'', PStr (ts (time a))),
             (''distance_au'', PFloat (distance a)),
             (''velocity_km_s'', PFloat (velocity a)),
             (''neo'', PDict (NearEarthObject_serialize (the (neo a))))]) results)"
  using assms
proof (induction results arbitrary: acc)
  case Nil
  then show ?case by simp
next
  case (Cons a results)
  from Cons.prems obtain n where n: "neo a = Some n" by auto
  from Cons.prems have t: "datetime_to_str (time a) = Inr (ts (time a))" by simp
  from Cons.prems have "\<forall>a \<in> set results. neo a \<noteq> None"
    and "\<forall>a \<in> set results. datetime_to_str (time a) = Inr (ts (time a))"
    by simp_all
  from Cons.IH [OF this] show ?case
    by (simp add: CloseApproach_serialize_def n t dict_merge_neo)
qed

text \<open>
  C8. For approaches that are all linked to an object, and whose times
  \<^verbatim>\<open>datetime_to_str\<close> formats, \<^verbatim>\<open>write_to_json\<close> writes a document with one entry for
  each approach, in the order of the input: the entries \<open>datetime_utc\<close>, \<open>distance_au\<close>
  and \<open>velocity_km_s\<close> of the approach, followed by the entry \<open>neo\<close> holding the
  \<open>designation\<close>, \<open>name\<close>, \<open>diameter_km\<close> and \<open>potentially_hazardous\<close> of its object.
\<close>

theorem write_to_json_document:
  assumes "\<forall>a \<in> set results. neo a \<noteq> None"
    and "\<forall>a \<in> set results. datetime_to_str (time a) = Inr (ts (time a))"
  shows "write_to_json datetime_to_str files results filename
       = (files(filename \<mapsto> PList (map (\<lambda>a. PDict
            [(''datetime_utc'', PStr (ts (time a))),
             (''distance_au'', PFloat (distance a)),
             (''velocity_km_s'', PFloat (velocity a)),
             (''neo'', PDict
                [(''designation'', designation (the (neo a))),
                 (''name'', name (the (neo a))),
                 (''diameter_km'', PFloat (diameter (the (neo a)))),
                 (''potentially_hazardous'', PBool (hazardous (the (neo a))))])]) results)),
          Inr ())"
  unfolding write_to_json_def json_entries_linked [OF assms]
  by (simp add: NearEarthObject_serialize_def)

theorem write_to_json_document_witness:
  "write_to_json (\<lambda>t. Inr (case t of None \<Rightarrow> [] | Some s \<Rightarrow> s)) Map.empty
     [CloseApproach (PStr ''433'') (Some ''1900-01-01 00:00'') (Finite 1) (Finite 2)
        (Some (NearEarthObject (PStr ''433'') (PStr ''Eros'') NaN False [])),
      CloseApproach (PStr ''719'') (Some ''1910-02-03 04:05'') (Finite 3) (Finite 4)
        (Some (NearEarthObject (PStr ''719'') PNone (Finite 5) True []))]
     ''out.json''
   = ([''out.json'' \<mapsto> PList
        [PDict [(''datetime_utc'', PStr ''1900-01-01 00:00''),
                (''distance_au'', PFloat (Finite 1)),
                (''velocity_km_s'', PFloat (Finite 2)),
                (''neo'', PDict [(''designation'', PStr ''433''), (''name'', PStr ''Eros''),
                                 (''diameter_km'', PFloat NaN),
                                 (''potentially_hazardous'', PBool False)])],
         PDict [(''datetime_utc'', PStr ''1910-02-03 04:05''),
                (''distance_au'', PFloat (Finite 3)),
                (''velocity_km_s'', PFloat (Finite 4)),
                (''neo'', PDict [(''designation'', PStr ''719''), (''name'', PNone),
                                 (''diameter_km'', PFloat (Finite 5)),
                                 (''potentially_hazardous'', PBool True)])]]],
      Inr ())"
proof -
  let ?dts = "\<lambda>t :: string option. (Inr (case t of None \<Rightarrow> [] | Some s \<Rightarrow> s) :: exn + string)"
  let ?ts = "\<lambda>t :: string option. case t of None \<Rightarrow> [] | Some s \<Rightarrow> s"
  let ?results = "[CloseApproach (PStr ''433'') (Some ''1900-01-01 00:00'') (Finite 1) (Finite 2)
        (Some (NearEarthObject (PStr ''433'') (PStr ''Eros'') NaN False [])),
      CloseApproach (PStr ''719'') (Some ''1910-02-03 04:05'') (Finite 3) (Finite 4)
        (Some (NearEarthObject (PStr ''719'') PNone (Finite 5) True []))]"
  have linked: "\<forall>a \<in> set ?results. neo a \<noteq> None" by simp
  have times: "\<forall>a \<in> set ?results. ?dts (time a) = Inr (?ts (time a))" by simp
  from write_to_json_document [where datetime_to_str = ?dts and ts = ?ts, OF linked times,
      of Map.empty "''out.json''"]
  show ?thesis by simp
qed

lemma csv_rowdict_unlinked:
  "neo a = None \<Longrightarrow> \<exists>e. csv_rowdict datetime_to_str a = Inl e"
  by (cases "datetime_to_str (time a)") (simp_all add: csv_rowdict_def)

lemma csv_rowdict_error:
  "csv_rowdict datetime_to_str a = Inl e \<Longrightarrow> datetime_to_str (time a) = Inr s \<Longrightarrow>
   e = AttributeError"
  by (cases "neo a") (simp_all add: csv_rowdict_def)

lemma write_rows_unlinked:
  "a \<in> set results \<Longrightarrow> neo a = None \<Longrightarrow>
   \<exists>e. snd (write_rows datetime_to_str lines results) = Inl e"
proof (induction results arbitrary: lines)
  case Nil
  then show ?case by simp
next
  case (Cons row results)
  show ?case
  proof (cases "csv_rowdict datetime_to_str row")
    case (Inl e)
    then show ?thesis by simp
  next
    case (Inr rowdict)
    with Cons.prems csv_rowdict_unlinked [of a datetime_to_str] have "a \<in> set results"
      by auto
    from Cons.IH [OF this Cons.prems(2)] Inr show ?thesis by simp
  qed
qed

lemma write_rows_error:
  "snd (write_rows datetime_to_str lines results) = Inl e \<Longrightarrow>
   \<forall>b \<in> set results. \<exists>s. datetime_to_str (time b) = Inr s \<Longrightarrow> e = AttributeError"
proof (induction results arbitrary: lines)
  case Nil
  then show ?case by simp
next
  case (Cons row results)
  from Cons.prems(2) obtain s where s: "datetime_to_str (time row) = Inr s" by auto
  show ?case
  proof (cases "csv_rowdict datetime_to_str row")
    case (Inl e')
    with Cons.prems(1) have "e' = e" by simp
    with Inl csv_rowdict_error [of datetime_to_str row e' s] s show ?thesis by simp
  next
    case (Inr rowdict)
    with Cons.prems(1) have "snd (write_rows datetime_to_str (lines @ [dict_to_list rowdict]) results) = Inl e"
      by simp
    from Cons.IH [OF this] Cons.prems(2) show ?thesis by simp
  qed
qed

lemma snd_write_to_csv:
  "snd (write_to_csv datetime_to_str files results filename)
     = snd (write_rows datetime_to_str [map PStr fieldnames] results)"
  by (simp add: write_to_csv_def split_def Let_def)

text \<open>
  C9. An approach whose \<open>neo\<close> is still \<^verbatim>\<open>None\<close> makes \<^verbatim>\<open>__str__\<close> fail, and makes
  \<^verbatim>\<open>write_to_csv\<close> fail for every list of results that contains it. The exception is
  \<^verbatim>\<open>AttributeError\<close> whenever \<^verbatim>\<open>datetime_to_str\<close>, which runs before the object is
  read, returns. With the approach first in the results the file holds the header
  line only.
\<close>

theorem unlinked_approach_fails:
  assumes "neo a = None"
  shows "(\<exists>e. CloseApproach_str datetime_to_str str_of float_fmt a = Inl e)
       \<and> (datetime_to_str (time a) = Inr s \<longrightarrow>
            CloseApproach_str datetime_to_str str_of float_fmt a = Inl AttributeError)
       \<and> (a \<in> set results \<longrightarrow>
            (\<exists>e. snd (write_to_csv datetime_to_str files results filename) = Inl e))
       \<and> (a \<in> set results \<and> (\<forall>b \<in> set results. \<exists>s. datetime_to_str (time b) = Inr s) \<longrightarrow>
            snd (write_to_csv datetime_to_str files results filename) = Inl AttributeError)
       \<and> (datetime_to_str (time a) = Inr s \<longrightarrow>
            write_to_csv datetime_to_str files (a # rest) filename
              = (files(filename \<mapsto> PList [PList (map PStr fieldnames)]), Inl AttributeError))"
proof (intro conjI impI)
  show "\<exists>e. CloseApproach_str datetime_to_str str_of float_fmt a = Inl e"
    using assms by (cases "datetime_to_str (time a)") (simp_all add: CloseApproach_str_def time_str_def)
  show "CloseApproach_str datetime_to_str str_of float_fmt a = Inl AttributeError"
    if "datetime_to_str (time a) = Inr s"
    using assms that by (simp add: CloseApproach_str_def time_str_def)
  show "\<exists>e. snd (write_to_csv datetime_to_str files results filename) = Inl e"
    if "a \<in> set results"
    using write_rows_unlinked [OF that assms, of datetime_to_str "[map PStr fieldnames]"]
    by (simp add: snd_write_to_csv)
  show "snd (write_to_csv datetime_to_str files results filename) = Inl AttributeError"
    if h: "a \<in> set results \<and> (\<forall>b \<in> set results. \<exists>s. datetime_to_str (time b) = Inr s)"
  proof -
    from h write_rows_unlinked [OF _ assms, of results datetime_to_str "[map PStr fieldnames]"]
    obtain e where e: "snd (write_rows datetime_to_str [map PStr fieldnames] results) = Inl e"
      by blast
    from write_rows_error [OF e] h have "e = AttributeError" by blast
    with e show ?thesis by (simp add: snd_write_to_csv)
  qed
  show "write_to_csv datetime_to_str files (a # rest) filename
              = (files(filename \<mapsto> PList [PList (map PStr fieldnames)]), Inl AttributeError)"
    if "datetime_to_str (time a) = Inr s"
    using assms that by (simp add: write_to_csv_def csv_rowdict_def time_str_def)
qed

theorem unlinked_approach_fails_witness:
  "CloseApproach_init Inr [''designation'' \<mapsto> PStr ''433'', ''time'' \<mapsto> PStr ''1900-Jan-01 00:00'',
       ''distance'' \<mapsto> PStr ''0.0921'', ''velocity'' \<mapsto> PStr ''5.58'']
     = Inr (CloseApproach (PStr ''433'') (Some (PStr ''1900-Jan-01 00:00''))
              (binary64 (921 / 10000)) (binary64 (558 / 100)) None)
   \<and> CloseApproach_str (\<lambda>t. Inr ''1900-01-01 00:00'') (\<lambda>v. []) (\<lambda>x. [])
        (CloseApproach (PStr ''433'') (Some (PStr ''1900-Jan-01 00:00''))
              (binary64 (921 / 10000)) (binary64 (558 / 100)) None)
     = Inl AttributeError
   \<and> write_to_csv (\<lambda>t. Inr ''1900-01-01 00:00'') Map.empty
        [CloseApproach (PStr ''433'') (Some (PStr ''1900-Jan-01 00:00''))
              (binary64 (921 / 10000)) (binary64 (558 / 100)) None] ''out.csv''
     = ([''out.csv'' \<mapsto> PList [PList (map PStr fieldnames)]], Inl AttributeError)"
proof -
  let ?a = "CloseApproach (PStr ''433'') (Some (PStr ''1900-Jan-01 00:00''))
              (binary64 (921 / 10000)) (binary64 (558 / 100)) None :: pyval CloseApproach"
  let ?dts = "\<lambda>t :: pyval option. (Inr ''1900-01-01 00:00'' :: exn + string)"
  have init: "CloseApproach_init Inr [''designation'' \<mapsto> PStr ''433'', ''time'' \<mapsto> PStr ''1900-Jan-01 00:00'',
       ''distance'' \<mapsto> PStr ''0.0921'', ''velocity'' \<mapsto> PStr ''5.58''] = Inr ?a"
    by (simp add: CloseApproach_init_def float_of_string_0_0921 float_of_string_5_58 py_or_def)
  have unlinked: "neo ?a = None" by simp
  have t: "?dts (time ?a) = Inr ''1900-01-01 00:00''" by simp
  from unlinked_approach_fails [OF unlinked, where datetime_to_str = ?dts
      and s = "''1900-01-01 00:00''" and str_of = "\<lambda>v. []" and float_fmt = "\<lambda>x. []"
      and files = Map.empty and rest = "[]" and filename = "''out.csv''"] t
  have "CloseApproach_str ?dts (\<lambda>v. []) (\<lambda>x. []) ?a = Inl AttributeError"
    and "write_to_csv ?dts Map.empty [?a] ''out.csv''
           = ([''out.csv'' \<mapsto> PList [PList (map PStr fieldnames)]], Inl AttributeError)"
    by blast+
  with init show ?thesis by blast
qed

end
